theory Spec2Isabelle
  imports Complex_Main "HOL-Library.AList" "HOL-Library.Multiset"
begin

section \<open>JavaScript numbers, as far as the progress computation needs them\<close>

text \<open>
  A JavaScript number is a finite value, one of the two zeros, an infinity or NaN.
  \<open>Fin 0\<close> is the positive zero and \<open>NegZero\<close> the negative one. Finite arithmetic is
  exact here (the rounding of a double is not modelled); what is modelled is everything
  that division by a zero, the infinities and NaN do, since that is where
  \<open>Math.min(100, Math.max(0, ...))\<close> can be left.
\<close>

datatype jsnum = Fin rat | NegZero | PosInf | NegInf | NaN

fun is_zero :: "jsnum \<Rightarrow> bool" where
  "is_zero (Fin q) = (q = 0)"
| "is_zero NegZero = True"
| "is_zero _ = False"

fun is_inf :: "jsnum \<Rightarrow> bool" where
  "is_inf PosInf = True"
| "is_inf NegInf = True"
| "is_inf _ = False"

text \<open>The sign bit: set for negative finite values, the negative zero and \<open>-Infinity\<close>.\<close>

fun sign_bit :: "jsnum \<Rightarrow> bool" where
  "sign_bit (Fin q) = (q < 0)"
| "sign_bit NegZero = True"
| "sign_bit NegInf = True"
| "sign_bit _ = False"

definition signed_zero :: "bool \<Rightarrow> jsnum" where
  "signed_zero neg = (if neg then NegZero else Fin 0)"

definition signed_inf :: "bool \<Rightarrow> jsnum" where
  "signed_inf neg = (if neg then NegInf else PosInf)"

fun js_neg :: "jsnum \<Rightarrow> jsnum" where
  "js_neg (Fin q) = (if q = 0 then NegZero else Fin (- q))"
| "js_neg NegZero = Fin 0"
| "js_neg PosInf = NegInf"
| "js_neg NegInf = PosInf"
| "js_neg NaN = NaN"

fun js_add :: "jsnum \<Rightarrow> jsnum \<Rightarrow> jsnum" where
  "js_add NaN _ = NaN"
| "js_add _ NaN = NaN"
| "js_add PosInf NegInf = NaN"
| "js_add NegInf PosInf = NaN"
| "js_add PosInf _ = PosInf"
| "js_add _ PosInf = PosInf"
| "js_add NegInf _ = NegInf"
| "js_add _ NegInf = NegInf"
| "js_add NegZero NegZero = NegZero"
| "js_add NegZero (Fin q) = Fin q"
| "js_add (Fin p) NegZero = Fin p"
| "js_add (Fin p) (Fin q) = Fin (p + q)"

definition js_sub :: "jsnum \<Rightarrow> jsnum \<Rightarrow> jsnum" where
  "js_sub a b = js_add a (js_neg b)"

definition js_mul :: "jsnum \<Rightarrow> jsnum \<Rightarrow> jsnum" where
  "js_mul a b =
     (if a = NaN \<or> b = NaN then NaN
      else if (is_zero a \<and> is_inf b) \<or> (is_inf a \<and> is_zero b) then NaN
      else if is_inf a \<or> is_inf b then signed_inf (sign_bit a \<noteq> sign_bit b)
      else if is_zero a \<or> is_zero b then signed_zero (sign_bit a \<noteq> sign_bit b)
      else (case (a, b) of (Fin p, Fin q) \<Rightarrow> Fin (p * q) | _ \<Rightarrow> NaN))"

definition js_div :: "jsnum \<Rightarrow> jsnum \<Rightarrow> jsnum" where
  "js_div a b =
     (if a = NaN \<or> b = NaN then NaN
      else if (is_zero a \<and> is_zero b) \<or> (is_inf a \<and> is_inf b) then NaN
      else if is_inf a \<or> is_zero b then signed_inf (sign_bit a \<noteq> sign_bit b)
      else if is_zero a \<or> is_inf b then signed_zero (sign_bit a \<noteq> sign_bit b)
      else (case (a, b) of (Fin p, Fin q) \<Rightarrow> Fin (p / q) | _ \<Rightarrow> NaN))"

text \<open>\<open>Math.ceil\<close>: a value strictly between \<open>-1\<close> and \<open>0\<close> rounds to the negative zero.\<close>

fun js_ceil :: "jsnum \<Rightarrow> jsnum" where
  "js_ceil (Fin q) = (if - 1 < q \<and> q < 0 then NegZero else Fin (of_int \<lceil>q\<rceil>))"
| "js_ceil x = x"

text \<open>\<open>Math.max\<close> and \<open>Math.min\<close> of two arguments: NaN if either is NaN, and the
  positive zero counts as larger than the negative one.\<close>

fun js_max :: "jsnum \<Rightarrow> jsnum \<Rightarrow> jsnum" where
  "js_max NaN _ = NaN"
| "js_max _ NaN = NaN"
| "js_max PosInf _ = PosInf"
| "js_max _ PosInf = PosInf"
| "js_max NegInf b = b"
| "js_max a NegInf = a"
| "js_max NegZero NegZero = NegZero"
| "js_max NegZero (Fin q) = (if q < 0 then NegZero else Fin q)"
| "js_max (Fin p) NegZero = (if p < 0 then NegZero else Fin p)"
| "js_max (Fin p) (Fin q) = Fin (max p q)"

fun js_min :: "jsnum \<Rightarrow> jsnum \<Rightarrow> jsnum" where
  "js_min NaN _ = NaN"
| "js_min _ NaN = NaN"
| "js_min NegInf _ = NegInf"
| "js_min _ NegInf = NegInf"
| "js_min PosInf b = b"
| "js_min a PosInf = a"
| "js_min NegZero NegZero = NegZero"
| "js_min NegZero (Fin q) = (if q < 0 then Fin q else NegZero)"
| "js_min (Fin p) NegZero = (if p < 0 then Fin p else NegZero)"
| "js_min (Fin p) (Fin q) = Fin (min p q)"

text \<open>A number read as a percentage between 0 and 100 (either zero counts as 0).\<close>

fun in_percent_range :: "jsnum \<Rightarrow> bool" where
  "in_percent_range (Fin q) = (0 \<le> q \<and> q \<le> 100)"
| "in_percent_range NegZero = True"
| "in_percent_range _ = False"

section \<open>The allocation overview: progress of an allocation\<close>

text \<open>
  The fields of an \<open>allocations\<close> row that the code below reads. \<open>start_date\<close> and
  \<open>end_date\<close> hold what \<open>new Date(...).getTime()\<close> yields for the row's date strings:
  milliseconds since the epoch (a date string that does not parse is not modelled).
\<close>

datatype allocation_type = TierType | IndividualType

record Allocation =
  alloc_id :: string
  allocation_type :: allocation_type
  start_date :: int
  end_date :: int

definition ms_per_day :: jsnum where
  "ms_per_day = Fin (1000 * 60 * 60 * 24)"

definition getTime :: "int \<Rightarrow> jsnum" where
  "getTime t = Fin (of_int t)"

text \<open>\<open>AllocationOverview\<close>, lines 25 to 33; \<open>now\<close> is what \<open>new Date().getTime()\<close> reads.\<close>

definition daysRemaining :: "Allocation \<Rightarrow> int \<Rightarrow> jsnum" where
  "daysRemaining allocation now =
     js_ceil (js_div (js_sub (getTime (end_date allocation)) (getTime now)) ms_per_day)"

definition daysTotal :: "Allocation \<Rightarrow> jsnum" where
  "daysTotal allocation =
     js_ceil (js_div (js_sub (getTime (end_date allocation)) (getTime (start_date allocation)))
        ms_per_day)"

definition computeProgress :: "Allocation \<Rightarrow> int \<Rightarrow> jsnum" where
  "computeProgress allocation now =
     js_min (Fin 100) (js_max (Fin 0)
       (js_mul (js_div (js_sub (daysTotal allocation) (daysRemaining allocation now))
                  (daysTotal allocation))
          (Fin 100)))"

text \<open>The formula of the specification over exact day counts, for comparison.\<close>

definition days_between :: "int \<Rightarrow> int \<Rightarrow> int" where
  "days_between a b = \<lceil>(of_int (b - a) :: rat) / 86400000\<rceil>"

definition spec_progress :: "Allocation \<Rightarrow> int \<Rightarrow> rat" where
  "spec_progress allocation now =
     (let dt = days_between (start_date allocation) (end_date allocation);
          dr = days_between now (end_date allocation)
      in min 100 (max 0 ((of_int (dt - dr) / of_int dt) * 100)))"

definition jan :: "int \<Rightarrow> int" where
  \<comment> \<open>midnight UTC of a day of January 2024\<close>
  "jan d = 1704067200000 + (d - 1) * 86400000"

section \<open>The customer source aggregator (\<open>AllocationTiers\<close>)\<close>

datatype CustomerSourceId = Query | Tag | Group | Club | Search

record SourceItem =
  item_id :: string
  item_name :: string
  item_count :: "int option"

record SelectedSource =
  sourceId :: CustomerSourceId
  items :: "SourceItem list"

text \<open>The table \<open>MOCK_ITEM_DATA\<close>: item id to display name and optional count.\<close>

definition MOCK_ITEM_DATA :: "(string \<times> string \<times> int option) list" where
  "MOCK_ITEM_DATA =
     [(''q1'', ''High Value Customers'', Some 150),
      (''q2'', ''Recent Purchasers'', Some 75),
      (''q3'', ''Club Members'', Some 200),
      (''t1'', ''VIP'', Some 150),
      (''t2'', ''Collector'', Some 75),
      (''t3'', ''Early Access'', Some 200),
      (''g1'', ''West Coast'', Some 500),
      (''g2'', ''East Coast'', Some 300),
      (''g3'', ''Trade'', Some 100),
      (''c1'', ''Reserve Club'', Some 250),
      (''c2'', ''Reds Only'', Some 175),
      (''c3'', ''Mixed Club'', Some 300),
      (''cust1'', ''John Doe'', None),
      (''cust2'', ''Jane Smith'', None),
      (''cust3'', ''Bob Wilson'', None)]"

text \<open>
  The selection part of the component state: the active source kind, the working list of
  checked item ids of that kind, and the summary of selections per kind.
\<close>

record selection =
  selectedSource :: CustomerSourceId
  selectedItems :: "string list"
  selectedSources :: "SelectedSource list"

definition handleSourceChange :: "CustomerSourceId \<Rightarrow> 'a selection_scheme \<Rightarrow> 'a selection_scheme" where
  "handleSourceChange source s = s\<lparr>selectedSource := source, selectedItems := []\<rparr>"

text \<open>\<open>prev.includes(id) ? prev.filter(i => i !== id) : [...prev, id]\<close>\<close>

definition toggle :: "string \<Rightarrow> string list \<Rightarrow> string list" where
  "toggle i prev = (if i \<in> set prev then filter (\<lambda>j. j \<noteq> i) prev else prev @ [i])"

text \<open>
  \<open>newItems.filter(itemId => MOCK_ITEM_DATA[itemId]).map(itemId => ({id: itemId,
  ...MOCK_ITEM_DATA[itemId]}))\<close>: ids the table does not know are dropped, the others
  become items in the order of the working list.
\<close>

definition selectedSourceItems :: "string list \<Rightarrow> SourceItem list" where
  "selectedSourceItems newItems =
     concat (map (\<lambda>itemId. case map_of MOCK_ITEM_DATA itemId of
                     None \<Rightarrow> []
                   | Some (n, c) \<Rightarrow> [\<lparr>item_id = itemId, item_name = n, item_count = c\<rparr>])
               newItems)"

fun findIndex :: "('a \<Rightarrow> bool) \<Rightarrow> 'a list \<Rightarrow> nat option" where
  "findIndex P [] = None"
| "findIndex P (x # xs) = (if P x then Some 0 else map_option Suc (findIndex P xs))"

definition handleItemSelect :: "string \<Rightarrow> 'a selection_scheme \<Rightarrow> 'a selection_scheme" where
  "handleItemSelect i s =
     (let newItems = toggle i (selectedItems s);
          currentSource = selectedSource s;
          prev = selectedSources s
      in s\<lparr>selectedItems := newItems,
            selectedSources :=
              (if newItems = [] then filter (\<lambda>e. sourceId e \<noteq> currentSource) prev
               else let entry = \<lparr>sourceId = currentSource, items = selectedSourceItems newItems\<rparr>
                    in (case findIndex (\<lambda>e. sourceId e = currentSource) prev of
                          None \<Rightarrow> prev @ [entry]
                        | Some sourceIndex \<Rightarrow> prev[sourceIndex := entry]))\<rparr>)"

definition removeSource :: "CustomerSourceId \<Rightarrow> 'a selection_scheme \<Rightarrow> 'a selection_scheme" where
  "removeSource sid s =
     s\<lparr>selectedSources := filter (\<lambda>e. sourceId e \<noteq> sid) (selectedSources s),
       selectedItems := (if sid = selectedSource s then [] else selectedItems s)\<rparr>"

text \<open>\<open>item.count || 1\<close>: a missing count and a count of 0 both count as 1.\<close>

definition count_or_1 :: "SourceItem \<Rightarrow> int" where
  "count_or_1 item = (case item_count item of None \<Rightarrow> 1 | Some c \<Rightarrow> if c = 0 then 1 else c)"

definition totalCustomers :: "SelectedSource list \<Rightarrow> int" where
  "totalCustomers sources =
     fold (\<lambda>source total. total + fold (\<lambda>item sum. sum + count_or_1 item) (items source) 0)
       sources 0"

text \<open>The items recorded for one kind, over all entries of the summary.\<close>

definition items_of :: "CustomerSourceId \<Rightarrow> SelectedSource list \<Rightarrow> string list" where
  "items_of k sources = map item_id (concat (map items (filter (\<lambda>e. sourceId e = k) sources)))"

definition initial_selection :: selection where
  "initial_selection = \<lparr>selectedSource = Query, selectedItems = [], selectedSources = []\<rparr>"

section \<open>The row store\<close>

text \<open>
  The persistence collaborator is a row store with named relations, reached through
  \<open>select\<close>, \<open>insert\<close>, \<open>delete\<close> and \<open>upsert\<close> calls with equality filters and an
  ascending sort by one column. Only the columns the code reads or writes are kept.
  A JSON \<open>null\<close> and an absent (\<open>undefined\<close>) property are both \<open>None\<close>.
\<close>

datatype discount_kind = Percentage | Fixed

record Requirements =
  cartMin :: "int option"
  cartMax :: "int option"
  minAmount :: "rat option"

record Discounts =
  discount_type :: "discount_kind option"
  discount_amount :: "rat option"

record Shipping =
  shipping_method :: "string option"
  shipping_type :: "discount_kind option"
  shipping_amount :: "rat option"

record tier_row =
  t_id :: string
  t_allocation_id :: string
  t_name :: string
  t_level :: int
  t_access_start :: string
  t_access_end :: string
  t_customer_count :: int

record tier_overrides_row =
  o_tier_id :: string
  o_requirements :: "Requirements option"
  o_discounts :: "Discounts option"
  o_shipping :: "Shipping option"
  o_has_product_overrides :: bool

record product_override_row =
  p_tier_id :: string
  p_product_id :: string
  p_override_price :: "rat option"
  p_min_purchase :: "int option"
  p_max_purchase :: "int option"
  p_allow_wish_requests :: bool
  p_wish_request_min :: "int option"
  p_wish_request_max :: "int option"

record customer_tier_row =
  c_allocation_id :: string
  c_tier_id :: string
  c_customer_id :: string
  c_source_type :: CustomerSourceId
  c_source_id :: string
  c_created_at :: string

record allocation_product_row =
  ap_id :: string
  ap_allocation_id :: string
  ap_product_id :: string
  ap_allow_wish_requests :: bool

record db =
  allocation_tiers :: "tier_row list"
  tier_overrides :: "tier_overrides_row list"
  tier_product_overrides :: "product_override_row list"
  customer_tiers :: "customer_tier_row list"
  allocation_products :: "allocation_product_row list"

text \<open>
  What a call can answer besides its data: \<open>JsError\<close> is an exception the code itself
  throws (\<open>new Error(...)\<close>, the \<open>RangeError\<close> of \<open>toISOString\<close>), \<open>StoreError\<close> the
  \<open>error\<close> member of a store response.
\<close>

datatype error = JsError string | StoreError string

text \<open>
  Whether a call reaches the store is decided outside the program, so every call takes
  the answer of the environment as an argument: \<open>Some e\<close> is a call the store refuses
  with \<open>e\<close>, leaving all rows as they were; \<open>None\<close> is a call it carries out.
\<close>

definition select_tiers :: "error option \<Rightarrow> string \<Rightarrow> db \<Rightarrow> error + tier_row list" where
  \<comment> \<open>\<open>from('allocation_tiers').select(...).eq('allocation_id', id).order('level',
      {ascending: true})\<close>; rows of equal level stay in stored order\<close>
  "select_tiers fault aid d =
     (case fault of
        Some e \<Rightarrow> Inl e
      | None \<Rightarrow> Inr (sort_key t_level (filter (\<lambda>r. t_allocation_id r = aid) (allocation_tiers d))))"

definition select_tier_overrides :: "error option \<Rightarrow> string \<Rightarrow> db \<Rightarrow> error + tier_overrides_row option" where
  \<comment> \<open>\<open>from('tier_overrides').select('*').eq('tier_id', id).maybeSingle()\<close>: no row is
      \<open>null\<close> data, more than one row is an error\<close>
  "select_tier_overrides fault tid d =
     (case fault of
        Some e \<Rightarrow> Inl e
      | None \<Rightarrow>
          (case filter (\<lambda>r. o_tier_id r = tid) (tier_overrides d) of
             [] \<Rightarrow> Inr None
           | [r] \<Rightarrow> Inr (Some r)
           | _ \<Rightarrow> Inl (StoreError ''multiple rows returned'')))"

definition select_allocation_products :: "error option \<Rightarrow> string \<Rightarrow> db \<Rightarrow> error + allocation_product_row list" where
  "select_allocation_products fault aid d =
     (case fault of
        Some e \<Rightarrow> Inl e
      | None \<Rightarrow> Inr (filter (\<lambda>r. ap_allocation_id r = aid) (allocation_products d)))"

definition select_product_overrides :: "error option \<Rightarrow> string \<Rightarrow> db \<Rightarrow> error + product_override_row list" where
  "select_product_overrides fault tid d =
     (case fault of
        Some e \<Rightarrow> Inl e
      | None \<Rightarrow> Inr (filter (\<lambda>r. p_tier_id r = tid) (tier_product_overrides d)))"

definition insert_tier :: "error option \<Rightarrow> tier_row \<Rightarrow> db \<Rightarrow> (error + tier_row) \<times> db" where
  \<comment> \<open>\<open>insert({...}).select().single()\<close>: the stored row comes back, with the id the
      store gave it\<close>
  "insert_tier fault row d =
     (case fault of
        Some e \<Rightarrow> (Inl e, d)
      | None \<Rightarrow> (Inr row, d\<lparr>allocation_tiers := allocation_tiers d @ [row]\<rparr>))"

definition insert_tier_overrides :: "error option \<Rightarrow> tier_overrides_row \<Rightarrow> db \<Rightarrow> error option \<times> db" where
  "insert_tier_overrides fault row d =
     (case fault of
        Some e \<Rightarrow> (Some e, d)
      | None \<Rightarrow> (None, d\<lparr>tier_overrides := tier_overrides d @ [row]\<rparr>))"

definition insert_customer_tiers :: "error option \<Rightarrow> customer_tier_row list \<Rightarrow> db \<Rightarrow> error option \<times> db" where
  "insert_customer_tiers fault rows d =
     (case fault of
        Some e \<Rightarrow> (Some e, d)
      | None \<Rightarrow> (None, d\<lparr>customer_tiers := customer_tiers d @ rows\<rparr>))"

definition insert_product_overrides :: "error option \<Rightarrow> product_override_row list \<Rightarrow> db \<Rightarrow> error option \<times> db" where
  "insert_product_overrides fault rows d =
     (case fault of
        Some e \<Rightarrow> (Some e, d)
      | None \<Rightarrow> (None, d\<lparr>tier_product_overrides := tier_product_overrides d @ rows\<rparr>))"

definition delete_product_overrides :: "error option \<Rightarrow> string \<Rightarrow> db \<Rightarrow> error option \<times> db" where
  \<comment> \<open>\<open>from('tier_product_overrides').delete().eq('tier_id', id)\<close>\<close>
  "delete_product_overrides fault tid d =
     (case fault of
        Some e \<Rightarrow> (Some e, d)
      | None \<Rightarrow>
          (None, d\<lparr>tier_product_overrides :=
                      filter (\<lambda>r. p_tier_id r \<noteq> tid) (tier_product_overrides d)\<rparr>))"

text \<open>
  Modelled from the spec: the key of \<open>tier_overrides\<close>, which decides what the upsert
  of the editor conflicts on; the schema is not among the source files. The
  specification has the bundle as "TierOverrideBundle (0 or 1 per tier)", so the key is
  the tier id.
\<close>

definition upsert_has_product_overrides :: "error option \<Rightarrow> string \<Rightarrow> db \<Rightarrow> error option \<times> db" where
  \<comment> \<open>\<open>from('tier_overrides').upsert({tier_id: id, has_product_overrides: true})\<close>: an
      existing row has the column set, a missing row is inserted with the other columns
      empty\<close>
  "upsert_has_product_overrides fault tid d =
     (case fault of
        Some e \<Rightarrow> (Some e, d)
      | None \<Rightarrow>
          (None,
           if \<exists>r \<in> set (tier_overrides d). o_tier_id r = tid
           then d\<lparr>tier_overrides :=
                    map (\<lambda>r. if o_tier_id r = tid then r\<lparr>o_has_product_overrides := True\<rparr> else r)
                      (tier_overrides d)\<rparr>
           else d\<lparr>tier_overrides := tier_overrides d @
                    [\<lparr>o_tier_id = tid, o_requirements = None, o_discounts = None,
                      o_shipping = None, o_has_product_overrides = True\<rparr>]\<rparr>))"

text \<open>
  Modelled from the spec: the referential cleanup of the persistence layer. The schema
  of the relations (the foreign keys of \<open>tier_overrides\<close>, \<open>tier_product_overrides\<close> and
  \<open>customer_tiers\<close> on \<open>allocation_tiers\<close>) is not among the source files; the code only
  issues \<open>from('allocation_tiers').delete().eq('id', tierId)\<close>. The specification gives
  the store's part: "deletion of a tier must cascade-delete its override bundle and
  product overrides and membership records (referential cleanup owned by the persistence
  layer)". The rows that go are those of the tier rows the call deletes.
\<close>

definition delete_tier :: "error option \<Rightarrow> string \<Rightarrow> db \<Rightarrow> error option \<times> db" where
  "delete_tier fault tid d =
     (case fault of
        Some e \<Rightarrow> (Some e, d)
      | None \<Rightarrow>
          (let gone = set (map t_id (filter (\<lambda>r. t_id r = tid) (allocation_tiers d)))
           in (None,
               d\<lparr>allocation_tiers := filter (\<lambda>r. t_id r \<noteq> tid) (allocation_tiers d),
                 tier_overrides := filter (\<lambda>r. o_tier_id r \<notin> gone) (tier_overrides d),
                 tier_product_overrides :=
                   filter (\<lambda>r. p_tier_id r \<notin> gone) (tier_product_overrides d),
                 customer_tiers := filter (\<lambda>r. c_tier_id r \<notin> gone) (customer_tiers d)\<rparr>)))"

section \<open>Tiers: listing, creation and deletion (\<open>AllocationTiers\<close>)\<close>

text \<open>
  \<open>TierFormData\<close>. The level is what \<open>parseInt\<close> left in the form: an integer, or
  \<open>None\<close> for NaN. A key of \<open>overrides\<close> that is absent is \<open>None\<close>.
\<close>

record overrides_form =
  requirements :: "Requirements option"
  discounts :: "Discounts option"
  shipping :: "Shipping option"
  products :: "bool option"

record TierFormData =
  name :: string
  level :: "int option"
  accessStart :: string
  accessEnd :: string
  overrides :: overrides_form

text \<open>\<open>TierData\<close>: a tier row with the override bundle fetched for it, if any.\<close>

record TierData =
  td_row :: tier_row
  td_overrides :: "tier_overrides_row option"

record tiers_state = selection +
  showTierForm :: bool
  tiers :: "TierData list"
  loading :: bool
  formData :: TierFormData

definition empty_form :: TierFormData where
  "empty_form =
     \<lparr>name = [], level = Some 1, accessStart = [], accessEnd = [],
      overrides = \<lparr>requirements = None, discounts = None, shipping = None, products = None\<rparr>\<rparr>"

text \<open>
  The answers of the environment to the calls of one \<open>fetchTiers\<close>: to the query for
  the tiers, and to the query for the bundle of each tier (by tier id).
\<close>

record fetch_env =
  tiers_fault :: "error option"
  overrides_fault :: "string \<Rightarrow> error option"

text \<open>
  \<open>fetchTiers\<close> of \<open>AllocationTiers\<close>. An error of the tier query is thrown, caught and
  logged (the first component of the result), and the list on display stays as it was;
  an error of a bundle query is not looked at, its data is \<open>null\<close> and the tier is shown
  without a bundle.
\<close>

definition fetchTiers :: "fetch_env \<Rightarrow> Allocation \<Rightarrow> db \<Rightarrow> tiers_state \<Rightarrow> error option \<times> tiers_state" where
  "fetchTiers env allocation d ui =
     (case select_tiers (tiers_fault env) (alloc_id allocation) d of
        Inl tiersError \<Rightarrow> (Some tiersError, ui\<lparr>loading := False\<rparr>)
      | Inr tiersData \<Rightarrow>
          (None,
           ui\<lparr>tiers :=
                map (\<lambda>tier.
                       \<lparr>td_row = tier,
                        td_overrides =
                          (case select_tier_overrides (overrides_fault env (t_id tier)) (t_id tier) d of
                             Inr (Some r) \<Rightarrow> Some r
                           | _ \<Rightarrow> None)\<rparr>)
                  tiersData,
              loading := False\<rparr>))"

text \<open>
  \<open>fetchTiers\<close> of \<open>AllocationOverview\<close>: the query is only issued for an allocation of
  type \<open>tier\<close>; the result is the new list of tier summaries.
\<close>

definition overview_fetchTiers :: "error option \<Rightarrow> Allocation \<Rightarrow> db \<Rightarrow> tier_row list \<Rightarrow> error option \<times> tier_row list" where
  "overview_fetchTiers fault allocation d shown =
     (if allocation_type allocation = TierType
      then (case select_tiers fault (alloc_id allocation) d of
              Inl e \<Rightarrow> (Some e, shown)
            | Inr data \<Rightarrow> (None, data))
      else (None, shown))"

text \<open>
  The rows \<open>handleSubmit\<close> builds from the selection summary:
  \<open>selectedSources.flatMap(source => source.items.map(item => ({...})))\<close>.
\<close>

definition customerAssignments :: "string \<Rightarrow> string \<Rightarrow> string \<Rightarrow> SelectedSource list \<Rightarrow> customer_tier_row list" where
  "customerAssignments aid tid now_iso sources =
     concat (map (\<lambda>source.
                    map (\<lambda>item.
                           \<lparr>c_allocation_id = aid, c_tier_id = tid, c_customer_id = item_id item,
                            c_source_type = sourceId source, c_source_id = item_id item,
                            c_created_at = now_iso\<rparr>)
                      (items source))
               sources)"

text \<open>\<open>Object.keys(formData.overrides).length > 0\<close>\<close>

definition has_keys :: "overrides_form \<Rightarrow> bool" where
  "has_keys ov \<longleftrightarrow>
     requirements ov \<noteq> None \<or> discounts ov \<noteq> None \<or> shipping ov \<noteq> None \<or> products ov \<noteq> None"

text \<open>
  The environment of one tier creation: the id the store gives the new tier, the clock,
  \<open>new Date(s).toISOString()\<close> (\<open>None\<close> where it throws a \<open>RangeError\<close>), and the answers
  to the three inserts and to the refresh.
\<close>

record create_env =
  new_tier_id :: string
  now_iso :: string
  toISOString :: "string \<Rightarrow> string option"
  tier_fault :: "error option"
  bundle_fault :: "error option"
  assignments_fault :: "error option"
  refresh :: fetch_env

definition required_fields_error :: error where
  "required_fields_error = JsError ''Please fill in all required fields''"

text \<open>
  \<open>handleSubmit\<close> of \<open>AllocationTiers\<close>. Every \<open>throw\<close> lands in the one \<open>catch\<close>, which
  logs the error (the first component) and leaves the form as it is. \<open>!formData.level\<close>
  holds for NaN and for 0.
\<close>

definition AllocationTiers_handleSubmit ::
  "create_env \<Rightarrow> Allocation \<Rightarrow> db \<Rightarrow> tiers_state \<Rightarrow> error option \<times> db \<times> tiers_state" where
  "AllocationTiers_handleSubmit env allocation d ui =
     (let fd = formData ui in
      case level fd of
        None \<Rightarrow> (Some required_fields_error, d, ui)
      | Some lv \<Rightarrow>
          if name fd = [] \<or> lv = 0 \<or> accessStart fd = [] \<or> accessEnd fd = []
          then (Some required_fields_error, d, ui)
          else
            (case (toISOString env (accessStart fd), toISOString env (accessEnd fd)) of
               (Some start_iso, Some end_iso) \<Rightarrow>
                 (case insert_tier (tier_fault env)
                         \<lparr>t_id = new_tier_id env, t_allocation_id = alloc_id allocation,
                          t_name = name fd, t_level = lv, t_access_start = start_iso,
                          t_access_end = end_iso,
                          t_customer_count = totalCustomers (selectedSources ui)\<rparr> d of
                    (Inl tierError, d1) \<Rightarrow> (Some tierError, d1, ui)
                  | (Inr tier, d1) \<Rightarrow>
                      (case (if has_keys (overrides fd)
                             then insert_tier_overrides (bundle_fault env)
                                    \<lparr>o_tier_id = t_id tier,
                                     o_requirements = requirements (overrides fd),
                                     o_discounts = discounts (overrides fd),
                                     o_shipping = shipping (overrides fd),
                                     o_has_product_overrides = (products (overrides fd) = Some True)\<rparr>
                                    d1
                             else (None, d1)) of
                         (Some overridesError, d2) \<Rightarrow> (Some overridesError, d2, ui)
                       | (None, d2) \<Rightarrow>
                           (case (if selectedSources ui \<noteq> []
                                  then insert_customer_tiers (assignments_fault env)
                                         (customerAssignments (alloc_id allocation) (t_id tier)
                                            (now_iso env) (selectedSources ui))
                                         d2
                                  else (None, d2)) of
                              (Some assignmentError, d3) \<Rightarrow> (Some assignmentError, d3, ui)
                            | (None, d3) \<Rightarrow>
                                (None, d3,
                                 (snd (fetchTiers (refresh env) allocation d3 ui))
                                   \<lparr>formData := empty_form, selectedSources := [],
                                    selectedItems := [], showTierForm := False\<rparr>))))
             | _ \<Rightarrow> (Some (JsError ''Invalid time value''), d, ui)))"

text \<open>\<open>deleteTier\<close>: one delete on \<open>allocation_tiers\<close>, then the refresh.\<close>

definition deleteTier ::
  "error option \<Rightarrow> fetch_env \<Rightarrow> Allocation \<Rightarrow> string \<Rightarrow> db \<Rightarrow> tiers_state \<Rightarrow> error option \<times> db \<times> tiers_state" where
  "deleteTier fault env allocation tierId d ui =
     (case delete_tier fault tierId d of
        (Some e, d1) \<Rightarrow> (Some e, d1, ui)
      | (None, d1) \<Rightarrow> (None, d1, snd (fetchTiers env allocation d1 ui)))"

section \<open>Product overrides of a tier (\<open>TierProductOverrides\<close>)\<close>

record ProductOverride =
  productId :: string
  overridePrice :: "rat option"
  minPurchase :: "int option"
  maxPurchase :: "int option"
  allowWishRequests :: bool
  wishRequestMin :: "int option"
  wishRequestMax :: "int option"

text \<open>
  \<open>Record<string, ProductOverride>\<close>: an association list in the order the keys were
  first set, each key once (product ids are not array indices, so this is the order
  \<open>Object.values\<close> enumerates).
\<close>

type_synonym override_map = "(string \<times> ProductOverride) list"

text \<open>The operators \<open>??\<close> and \<open>?.\<close> on an optional value.\<close>

definition nullish :: "'a option \<Rightarrow> 'a \<Rightarrow> 'a" where
  "nullish v base = (case v of Some x \<Rightarrow> x | None \<Rightarrow> base)"

definition opt_chain :: "'a option \<Rightarrow> ('a \<Rightarrow> 'b) \<Rightarrow> 'b option" where
  "opt_chain v f = map_option f v"

text \<open>
  The state of the "Allow Wish Requests" checkbox and the condition of the wish-request
  inputs: \<open>overrides[product.id]?.allowWishRequests ?? product.allow_wish_requests\<close>.
\<close>

definition effective_allowWishRequests :: "override_map \<Rightarrow> allocation_product_row \<Rightarrow> bool" where
  "effective_allowWishRequests ovs product =
     nullish (opt_chain (map_of ovs (ap_id product)) allowWishRequests)
       (ap_allow_wish_requests product)"

text \<open>A field of \<open>ProductOverride\<close> together with the value it is set to.\<close>

datatype field_value =
    SetProductId string
  | SetOverridePrice "rat option"
  | SetMinPurchase "int option"
  | SetMaxPurchase "int option"
  | SetAllowWishRequests bool
  | SetWishRequestMin "int option"
  | SetWishRequestMax "int option"

fun set_field :: "field_value \<Rightarrow> ProductOverride \<Rightarrow> ProductOverride" where
  "set_field (SetProductId v) ov = ov\<lparr>productId := v\<rparr>"
| "set_field (SetOverridePrice v) ov = ov\<lparr>overridePrice := v\<rparr>"
| "set_field (SetMinPurchase v) ov = ov\<lparr>minPurchase := v\<rparr>"
| "set_field (SetMaxPurchase v) ov = ov\<lparr>maxPurchase := v\<rparr>"
| "set_field (SetAllowWishRequests v) ov = ov\<lparr>allowWishRequests := v\<rparr>"
| "set_field (SetWishRequestMin v) ov = ov\<lparr>wishRequestMin := v\<rparr>"
| "set_field (SetWishRequestMax v) ov = ov\<lparr>wishRequestMax := v\<rparr>"

text \<open>\<open>{ productId, allowWishRequests: false }\<close>\<close>

definition fresh_override :: "string \<Rightarrow> ProductOverride" where
  "fresh_override pid =
     \<lparr>productId = pid, overridePrice = None, minPurchase = None, maxPurchase = None,
      allowWishRequests = False, wishRequestMin = None, wishRequestMax = None\<rparr>"

definition handleOverrideChange :: "string \<Rightarrow> field_value \<Rightarrow> override_map \<Rightarrow> override_map" where
  "handleOverrideChange pid fv prev =
     AList.update pid
       (set_field fv (case map_of prev pid of Some existing \<Rightarrow> existing | None \<Rightarrow> fresh_override pid))
       prev"

text \<open>The conversions between a stored row and an entry of the editor's state.\<close>

definition to_row :: "string \<Rightarrow> ProductOverride \<Rightarrow> product_override_row" where
  "to_row tid ov =
     \<lparr>p_tier_id = tid, p_product_id = productId ov, p_override_price = overridePrice ov,
      p_min_purchase = minPurchase ov, p_max_purchase = maxPurchase ov,
      p_allow_wish_requests = allowWishRequests ov, p_wish_request_min = wishRequestMin ov,
      p_wish_request_max = wishRequestMax ov\<rparr>"

definition of_row :: "product_override_row \<Rightarrow> ProductOverride" where
  "of_row r =
     \<lparr>productId = p_product_id r, overridePrice = p_override_price r,
      minPurchase = p_min_purchase r, maxPurchase = p_max_purchase r,
      allowWishRequests = p_allow_wish_requests r, wishRequestMin = p_wish_request_min r,
      wishRequestMax = p_wish_request_max r\<rparr>"

text \<open>\<open>existingOverrides?.forEach(override => { overridesMap[override.product_id] = ... })\<close>\<close>

definition overridesMap :: "product_override_row list \<Rightarrow> override_map" where
  "overridesMap existing = fold (\<lambda>r m. AList.update (p_product_id r) (of_row r) m) existing []"

record editor_state =
  ed_products :: "allocation_product_row list"
  ed_overrides :: override_map
  ed_loading :: bool

text \<open>\<open>if (tierId)\<close>: the property is given and not the empty string.\<close>

definition given_tier :: "string option \<Rightarrow> string option" where
  "given_tier tierId = (case tierId of None \<Rightarrow> None | Some t \<Rightarrow> if t = [] then None else Some t)"

text \<open>
  \<open>fetchProducts\<close>, the effect that loads the editor: the products of the allocation,
  then, for an existing tier, its stored overrides as a mapping by product id.
\<close>

definition fetchProducts ::
  "error option \<Rightarrow> error option \<Rightarrow> Allocation \<Rightarrow> string option \<Rightarrow> db \<Rightarrow> editor_state \<Rightarrow> error option \<times> editor_state" where
  "fetchProducts products_fault overrides_fault' allocation tierId d ed =
     (case select_allocation_products products_fault (alloc_id allocation) d of
        Inl productsError \<Rightarrow> (Some productsError, ed\<lparr>ed_loading := False\<rparr>)
      | Inr allocationProducts \<Rightarrow>
          (case given_tier tierId of
             None \<Rightarrow> (None, ed\<lparr>ed_products := allocationProducts, ed_loading := False\<rparr>)
           | Some tid \<Rightarrow>
               (case select_product_overrides overrides_fault' tid d of
                  Inl overridesError \<Rightarrow>
                    (Some overridesError, ed\<lparr>ed_products := allocationProducts, ed_loading := False\<rparr>)
                | Inr existingOverrides \<Rightarrow>
                    (None, ed\<lparr>ed_products := allocationProducts,
                              ed_overrides := overridesMap existingOverrides,
                              ed_loading := False\<rparr>))))"

text \<open>
  \<open>listOverrides(tierId)\<close> of the specification is the second query of \<open>fetchProducts\<close>
  with its conversion: the stored overrides of a tier as a mapping, or the store's error.
\<close>

definition listOverrides :: "error option \<Rightarrow> string \<Rightarrow> db \<Rightarrow> error + override_map" where
  "listOverrides fault tid d =
     (case select_product_overrides fault tid d of
        Inl overridesError \<Rightarrow> Inl overridesError
      | Inr existingOverrides \<Rightarrow> Inr (overridesMap existingOverrides))"

text \<open>What \<open>handleSubmit\<close> of the editor ends with.\<close>

datatype submit_result =
    CalledOnSave override_map
  | CalledOnClose
  | Caught error
  | NothingDone

record save_env =
  delete_fault :: "error option"
  insert_fault :: "error option"
  upsert_fault :: "error option"

text \<open>
  \<open>handleSubmit\<close> of \<open>TierProductOverrides\<close>. With \<open>onSave\<close> given (creation mode) the
  overrides go back to the parent and nothing is stored. In edit mode the answers of the
  delete and of the upsert are awaited but their \<open>error\<close> is not read; only the insert's
  is thrown.
\<close>

definition TierProductOverrides_handleSubmit ::
  "save_env \<Rightarrow> bool \<Rightarrow> string option \<Rightarrow> override_map \<Rightarrow> db \<Rightarrow> submit_result \<times> db" where
  "TierProductOverrides_handleSubmit env onSave_given tierId ovs d =
     (if onSave_given then (CalledOnSave ovs, d)
      else (case given_tier tierId of
              None \<Rightarrow> (NothingDone, d)
            | Some tid \<Rightarrow>
                (let d1 = snd (delete_product_overrides (delete_fault env) tid d);
                     overridesToInsert = map (\<lambda>override. to_row tid override) (map snd ovs)
                 in case insert_product_overrides (insert_fault env) overridesToInsert d1 of
                      (Some e, d2) \<Rightarrow> (Caught e, d2)
                    | (None, d2) \<Rightarrow>
                        (CalledOnClose,
                         snd (upsert_has_product_overrides (upsert_fault env) tid d2)))))"

section \<open>Auxiliary notions and sample data\<close>

text \<open>Setting the flag of the bundle of one tier, the row update of the upsert.\<close>

definition set_flag :: "string \<Rightarrow> tier_overrides_row \<Rightarrow> tier_overrides_row" where
  "set_flag tid r = (if o_tier_id r = tid then r\<lparr>o_has_product_overrides := True\<rparr> else r)"

text \<open>Every bundle row whose flag is set is still there, unchanged.\<close>

definition flags_kept :: "db \<Rightarrow> db \<Rightarrow> bool" where
  "flags_kept d d' \<longleftrightarrow>
     (\<forall>r \<in> set (tier_overrides d). o_has_product_overrides r \<longrightarrow> r \<in> set (tier_overrides d'))"

text \<open>
  Referential integrity, as foreign keys on \<open>allocation_tiers\<close> keep it: every bundle,
  product override and customer assignment belongs to a tier that exists.
\<close>

definition references_tiers :: "db \<Rightarrow> bool" where
  "references_tiers d \<longleftrightarrow>
     list_all (\<lambda>r. o_tier_id r \<in> set (map t_id (allocation_tiers d))) (tier_overrides d)
   \<and> list_all (\<lambda>r. p_tier_id r \<in> set (map t_id (allocation_tiers d))) (tier_product_overrides d)
   \<and> list_all (\<lambda>r. c_tier_id r \<in> set (map t_id (allocation_tiers d))) (customer_tiers d)"

text \<open>The editor's state as the editor itself builds it: one entry per key, and the
  \<open>productId\<close> of an entry is its key.\<close>

definition well_keyed :: "override_map \<Rightarrow> bool" where
  "well_keyed ovs \<longleftrightarrow> distinct (map fst ovs) \<and> list_all (\<lambda>(k, ov). productId ov = k) ovs"




fun sets_allowWishRequests :: "field_value \<Rightarrow> bool" where
  "sets_allowWishRequests (SetAllowWishRequests _) = True"
| "sets_allowWishRequests _ = False"

definition example_allocation :: Allocation where
  "example_allocation =
     \<lparr>alloc_id = ''a1'', allocation_type = TierType, start_date = jan 1, end_date = jan 11\<rparr>"

definition calm :: fetch_env where
  "calm = \<lparr>tiers_fault = None, overrides_fault = (\<lambda>_. None)\<rparr>"

definition all_ok :: save_env where
  "all_ok = \<lparr>delete_fault = None, insert_fault = None, upsert_fault = None\<rparr>"

definition example_env :: create_env where
  "example_env =
     \<lparr>new_tier_id = ''tier3'', now_iso = ''2024-01-02T09:00:00.000Z'',
      toISOString = (\<lambda>s. if s = [] then None else Some (s @ '':00.000Z'')),
      tier_fault = None, bundle_fault = None, assignments_fault = None, refresh = calm\<rparr>"

definition example_db :: db where
  "example_db =
     \<lparr>allocation_tiers =
        [\<lparr>t_id = ''tier1'', t_allocation_id = ''a1'', t_name = ''Gold'', t_level = 2,
          t_access_start = ''2024-01-03T00:00:00.000Z'', t_access_end = ''2024-01-05T00:00:00.000Z'',
          t_customer_count = 3\<rparr>,
         \<lparr>t_id = ''tier2'', t_allocation_id = ''a1'', t_name = ''Founders'', t_level = 1,
          t_access_start = ''2024-01-01T00:00:00.000Z'', t_access_end = ''2024-01-02T00:00:00.000Z'',
          t_customer_count = 1\<rparr>],
      tier_overrides =
        [\<lparr>o_tier_id = ''tier1'', o_requirements = Some \<lparr>cartMin = Some 5, cartMax = None, minAmount = None\<rparr>,
          o_discounts = None, o_shipping = None, o_has_product_overrides = False\<rparr>],
      tier_product_overrides =
        [\<lparr>p_tier_id = ''tier1'', p_product_id = ''p9'', p_override_price = Some 40,
          p_min_purchase = None, p_max_purchase = Some 6, p_allow_wish_requests = True,
          p_wish_request_min = None, p_wish_request_max = None\<rparr>],
      customer_tiers =
        [\<lparr>c_allocation_id = ''a1'', c_tier_id = ''tier1'', c_customer_id = ''cust1'',
          c_source_type = Search, c_source_id = ''cust1'', c_created_at = ''2024-01-01T08:00:00.000Z''\<rparr>],
      allocation_products =
        [\<lparr>ap_id = ''p1'', ap_allocation_id = ''a1'', ap_product_id = ''sku1'',
          ap_allow_wish_requests = True\<rparr>]\<rparr>"

definition empty_db :: db where
  "empty_db =
     \<lparr>allocation_tiers = [], tier_overrides = [], tier_product_overrides = [],
      customer_tiers = [], allocation_products = []\<rparr>"

definition g1_item :: SourceItem where
  "g1_item = \<lparr>item_id = ''g1'', item_name = ''West Coast'', item_count = Some 500\<rparr>"

text \<open>The form filled in, with the group \<open>g1\<close> (500 customers) selected.\<close>

definition example_ui :: tiers_state where
  "example_ui =
     \<lparr>selectedSource = Group, selectedItems = [''g1''],
      selectedSources = [\<lparr>sourceId = Group, items = [g1_item]\<rparr>],
      showTierForm = True, tiers = [], loading = False,
      formData =
        \<lparr>name = ''VIP'', level = Some 3, accessStart = ''2024-01-06T00:00'',
         accessEnd = ''2024-01-08T00:00'',
         overrides = \<lparr>requirements = None, discounts = None, shipping = None, products = None\<rparr>\<rparr>\<rparr>"

definition example_overrides :: override_map where
  "example_overrides = [(''p1'', (fresh_override ''p1'')\<lparr>overridePrice := Some 20\<rparr>)]"

section \<open>Progress: results\<close>

lemma js_sub_Fin: "js_sub (Fin a) (Fin b) = Fin (a - b)"
  by (simp add: js_sub_def)

lemma js_div_day: "js_div (Fin x) ms_per_day = Fin (x / 86400000)"
  by (simp add: js_div_def ms_per_day_def signed_zero_def)

text \<open>The day count of the code is the ceiling of the specification; only its zero can
  carry a sign.\<close>

lemma day_count:
  "js_ceil (js_div (js_sub (getTime b) (getTime a)) ms_per_day) =
     (if days_between a b = 0 \<and> b < a then NegZero else Fin (of_int (days_between a b)))"
proof -
  let ?q = "(of_int (b - a) :: rat) / 86400000"
  have q: "js_div (js_sub (getTime b) (getTime a)) ms_per_day = Fin ?q"
    by (simp add: getTime_def js_sub_Fin js_div_day)
  have neg: "?q < 0 \<longleftrightarrow> b < a"
    by (simp add: divide_less_0_iff)
  have zero: "\<lceil>?q\<rceil> = 0 \<longleftrightarrow> - 1 < ?q \<and> ?q \<le> 0"
    by (simp add: ceiling_eq_iff)
  have "(- 1 < ?q \<and> ?q < 0) \<longleftrightarrow> (\<lceil>?q\<rceil> = 0 \<and> b < a)"
    using neg zero by auto
  then show ?thesis
    unfolding q by (simp add: days_between_def)
qed

text \<open>
  Outside the degenerate window the code computes the formula of the specification,
  \<open>clamp((daysTotal - daysRemaining) / daysTotal * 100, 0, 100)\<close>, and so a value in
  [0, 100].
\<close>

lemma computeProgress_nondegenerate:
  assumes "days_between (start_date a) (end_date a) \<noteq> 0"
  shows "computeProgress a now = Fin (spec_progress a now)"
proof -
  define dt where "dt = days_between (start_date a) (end_date a)"
  define dr where "dr = days_between now (end_date a)"
  have T: "daysTotal a = Fin (of_int dt)"
    using assms by (simp add: daysTotal_def day_count dt_def)
  have R: "daysRemaining a now = NegZero \<and> dr = 0 \<or> daysRemaining a now = Fin (of_int dr)"
    by (simp add: daysRemaining_def day_count dr_def)
  have N: "js_sub (daysTotal a) (daysRemaining a now) = Fin (of_int (dt - dr))"
    using R unfolding T by (auto simp: js_sub_def)
  define x :: rat where "x = of_int (dt - dr)"
  define y :: rat where "y = of_int dt"
  have quot: "js_mul (js_div (js_sub (daysTotal a) (daysRemaining a now)) (daysTotal a)) (Fin 100)
      = js_mul (js_div (Fin x) (Fin y)) (Fin 100)"
    by (subst N) (simp only: T x_def y_def)
  have y0: "y \<noteq> 0"
    using assms by (simp add: y_def dt_def)
  have spec: "spec_progress a now = min 100 (max 0 (x / y * 100))"
    by (simp add: spec_progress_def dt_def[symmetric] dr_def[symmetric] Let_def x_def y_def)
  show ?thesis
  proof (cases "x = 0")
    case True
    have "js_mul (js_div (Fin x) (Fin y)) (Fin 100) = signed_zero (y < 0)"
      using True y0 by (simp add: js_div_def js_mul_def signed_zero_def)
    then have "computeProgress a now = Fin 0"
      unfolding computeProgress_def quot by (simp add: signed_zero_def)
    then show ?thesis
      using True spec by simp
  next
    case False
    have "js_mul (js_div (Fin x) (Fin y)) (Fin 100) = Fin (x / y * 100)"
      using False y0 by (simp add: js_div_def js_mul_def)
    then show ?thesis
      unfolding computeProgress_def quot spec by simp
  qed
qed

lemma computeProgress_in_range:
  assumes "days_between (start_date a) (end_date a) \<noteq> 0"
  shows "in_percent_range (computeProgress a now)"
  unfolding computeProgress_nondegenerate[OF assms]
  by (simp add: spec_progress_def Let_def)

text \<open>The example of the specification: a window of 10 days, 5 days in.\<close>

lemma computeProgress_halfway:
  "computeProgress \<lparr>alloc_id = ''a1'', allocation_type = TierType,
      start_date = jan 1, end_date = jan 11\<rparr> (jan 6) = Fin 50"
  by (simp add: computeProgress_def daysTotal_def daysRemaining_def js_sub_def js_div_def
      js_mul_def getTime_def ms_per_day_def jan_def signed_zero_def signed_inf_def)

text \<open>With a zero-length window the result depends on the clock: 0 before the end.\<close>

lemma computeProgress_zero_window_before:
  "computeProgress \<lparr>alloc_id = ''a1'', allocation_type = TierType,
      start_date = jan 3, end_date = jan 3\<rparr> (jan 1) = Fin 0"
  by (simp add: computeProgress_def daysTotal_def daysRemaining_def js_sub_def js_div_def
      js_mul_def getTime_def ms_per_day_def jan_def signed_zero_def signed_inf_def)

text \<open>From the end of a zero-length window until a day later it is NaN.\<close>

lemma computeProgress_zero_window_day_after:
  assumes "end_date a = start_date a" and "end_date a \<le> now" and "now < end_date a + 86400000"
  shows "computeProgress a now = NaN"
proof -
  have T: "daysTotal a = Fin 0"
    using assms(1) by (simp add: daysTotal_def day_count days_between_def)
  have "\<lceil>(of_int (end_date a - now) :: rat) / 86400000\<rceil> = 0"
    using assms(2,3) by (simp add: ceiling_eq_iff)
  then have R: "daysRemaining a now = NegZero \<or> daysRemaining a now = Fin 0"
    by (simp add: daysRemaining_def day_count days_between_def)
  then have "js_sub (daysTotal a) (daysRemaining a now) = Fin 0"
    unfolding T by (auto simp: js_sub_def)
  then show ?thesis
    unfolding computeProgress_def T by (simp add: js_div_def js_mul_def)
qed

text \<open>
  Claim C1, the degenerate window. With \<open>start == end\<close> both day counts can be zero, the
  quotient is \<open>0 / 0\<close>, and NaN passes through \<open>Math.max\<close> and \<open>Math.min\<close>: at
  start = end = now the progress is NaN, neither 100 nor any value in [0, 100].
\<close>

theorem computeProgress_zero_window_NaN:
  "computeProgress \<lparr>alloc_id = ''a1'', allocation_type = TierType,
      start_date = jan 1, end_date = jan 1\<rparr> (jan 1) = NaN
   \<and> \<not> in_percent_range (computeProgress \<lparr>alloc_id = ''a1'', allocation_type = TierType,
      start_date = jan 1, end_date = jan 1\<rparr> (jan 1))"
  by (simp add: computeProgress_def daysTotal_def daysRemaining_def js_sub_def js_div_def
      js_mul_def getTime_def ms_per_day_def jan_def signed_zero_def signed_inf_def)

section \<open>Deleting a tier: results\<close>

lemma filter_notin_own: "filter (\<lambda>r. f r = tid) (filter (\<lambda>r. f r \<notin> {tid}) xs) = []"
  by (induction xs) auto

lemma no_reference:
  "list_all (\<lambda>r. f r \<in> ids) xs \<Longrightarrow> tid \<notin> ids \<Longrightarrow> filter (\<lambda>r. f r = tid) xs = []"
  by (induction xs) auto

text \<open>
  Claim C2. For every tier id, after a delete that the store carries out, no bundle, no
  product override and no customer assignment of that tier is left, and listing the
  overrides of the deleted id answers with the empty mapping, not with an error. The
  removal of the dependent rows is the store's (see \<open>delete_tier\<close>), on rows that
  reference existing tiers.
\<close>

theorem deleteTier_removes_dependents:
  assumes "references_tiers d"
  shows "fst (deleteTier None env a tid d ui) = None
    \<and> (let d' = fst (snd (deleteTier None env a tid d ui)) in
         filter (\<lambda>r. t_id r = tid) (allocation_tiers d') = []
       \<and> filter (\<lambda>r. o_tier_id r = tid) (tier_overrides d') = []
       \<and> filter (\<lambda>r. p_tier_id r = tid) (tier_product_overrides d') = []
       \<and> filter (\<lambda>r. c_tier_id r = tid) (customer_tiers d') = []
       \<and> listOverrides None tid d' = Inr [])"
proof -
  have run: "deleteTier None env a tid d ui =
      (None, snd (delete_tier None tid d), snd (fetchTiers env a (snd (delete_tier None tid d)) ui))"
    by (simp add: deleteTier_def delete_tier_def Let_def)
  show ?thesis
  proof (cases "tid \<in> set (map t_id (allocation_tiers d))")
    case True
    then have gone: "set (map t_id (filter (\<lambda>r. t_id r = tid) (allocation_tiers d))) = {tid}"
      by auto
    show ?thesis
      unfolding run
      by (simp add: delete_tier_def Let_def gone filter_notin_own listOverrides_def
          select_product_overrides_def overridesMap_def del: set_map)
  next
    case False
    then have none: "filter (\<lambda>r. t_id r = tid) (allocation_tiers d) = []"
      by (auto simp: filter_empty_conv)
    have o: "filter (\<lambda>r. o_tier_id r = tid) (tier_overrides d) = []"
      using assms False by (intro no_reference) (simp_all add: references_tiers_def)
    have p: "filter (\<lambda>r. p_tier_id r = tid) (tier_product_overrides d) = []"
      using assms False by (intro no_reference) (simp_all add: references_tiers_def)
    have c: "filter (\<lambda>r. c_tier_id r = tid) (customer_tiers d) = []"
      using assms False by (intro no_reference) (simp_all add: references_tiers_def)
    show ?thesis
      unfolding run
      by (simp add: delete_tier_def Let_def none o p c listOverrides_def
          select_product_overrides_def overridesMap_def del: set_map)
  qed
qed

theorem deleteTier_removes_dependents_witness:
  "references_tiers example_db
   \<and> listOverrides None ''tier1'' example_db \<noteq> Inr []
   \<and> fst (deleteTier None calm example_allocation ''tier1'' example_db example_ui) = None
   \<and> (let d' = fst (snd (deleteTier None calm example_allocation ''tier1'' example_db example_ui)) in
         filter (\<lambda>r. t_id r = ''tier1'') (allocation_tiers d') = []
       \<and> filter (\<lambda>r. o_tier_id r = ''tier1'') (tier_overrides d') = []
       \<and> filter (\<lambda>r. p_tier_id r = ''tier1'') (tier_product_overrides d') = []
       \<and> filter (\<lambda>r. c_tier_id r = ''tier1'') (customer_tiers d') = []
       \<and> listOverrides None ''tier1'' d' = Inr [])"
proof -
  have h: "references_tiers example_db"
    by (simp add: references_tiers_def example_db_def)
  have before: "listOverrides None ''tier1'' example_db \<noteq> Inr []"
    by (simp add: listOverrides_def select_product_overrides_def example_db_def overridesMap_def)
  show ?thesis
    using h before deleteTier_removes_dependents[OF h, of calm example_allocation "''tier1''" example_ui]
    by blast
qed

section \<open>Creating a tier: validation\<close>

text \<open>
  Claim C8. A submission whose name, access start or access end is empty, or whose level
  is missing (NaN; a level of 0 is refused as well), ends with the validation error
  whatever the store would answer, and neither the rows of the store nor the form have
  changed: no call was issued.
\<close>

theorem missing_required_fields_no_write:
  assumes "name (formData ui) = [] \<or> level (formData ui) = None \<or> level (formData ui) = Some 0
     \<or> accessStart (formData ui) = [] \<or> accessEnd (formData ui) = []"
  shows "AllocationTiers_handleSubmit env a d ui = (Some required_fields_error, d, ui)"
  using assms
  by (auto simp: AllocationTiers_handleSubmit_def Let_def split: option.splits)

theorem missing_required_fields_no_write_witness:
  "name (formData (example_ui\<lparr>formData := empty_form\<rparr>)) = []
   \<and> AllocationTiers_handleSubmit example_env example_allocation example_db
        (example_ui\<lparr>formData := empty_form\<rparr>)
      = (Some required_fields_error, example_db, example_ui\<lparr>formData := empty_form\<rparr>)"
proof -
  have h: "name (formData (example_ui\<lparr>formData := empty_form\<rparr>)) = []"
    by (simp add: empty_form_def)
  then have "name (formData (example_ui\<lparr>formData := empty_form\<rparr>)) = []
     \<or> level (formData (example_ui\<lparr>formData := empty_form\<rparr>)) = None
     \<or> level (formData (example_ui\<lparr>formData := empty_form\<rparr>)) = Some 0
     \<or> accessStart (formData (example_ui\<lparr>formData := empty_form\<rparr>)) = []
     \<or> accessEnd (formData (example_ui\<lparr>formData := empty_form\<rparr>)) = []"
    by blast
  from missing_required_fields_no_write[OF this, of example_env example_allocation example_db] h
  show ?thesis by blast
qed

section \<open>Listing tiers: results\<close>

lemma fetchTiers_rows:
  "tiers_fault env = None \<Longrightarrow>
   map td_row (tiers (snd (fetchTiers env a d ui))) =
     sort_key t_level (filter (\<lambda>r. t_allocation_id r = alloc_id a) (allocation_tiers d))"
  by (simp add: fetchTiers_def select_tiers_def comp_def)

text \<open>
  Claim C9. When the store answers the query, the tiers on display are the tier rows of
  the allocation (each once), in ascending order of level; a second listing over the
  same rows shows the same sequence. The same holds for the overview of an allocation of
  type \<open>tier\<close>.
\<close>

theorem listed_tiers_sorted_by_level:
  assumes "tiers_fault env = None" and "tiers_fault env' = None"
  shows "sorted (map t_level (map td_row (tiers (snd (fetchTiers env a d ui)))))
   \<and> mset (map td_row (tiers (snd (fetchTiers env a d ui))))
       = mset (filter (\<lambda>r. t_allocation_id r = alloc_id a) (allocation_tiers d))
   \<and> map td_row (tiers (snd (fetchTiers env' a d (snd (fetchTiers env a d ui)))))
       = map td_row (tiers (snd (fetchTiers env a d ui)))
   \<and> (allocation_type a = TierType \<longrightarrow>
        sorted (map t_level (snd (overview_fetchTiers None a d shown)))
      \<and> mset (snd (overview_fetchTiers None a d shown))
          = mset (filter (\<lambda>r. t_allocation_id r = alloc_id a) (allocation_tiers d))
      \<and> overview_fetchTiers None a d (snd (overview_fetchTiers None a d shown))
          = overview_fetchTiers None a d shown)"
  using assms
  by (simp add: fetchTiers_rows overview_fetchTiers_def select_tiers_def)

theorem listed_tiers_sorted_by_level_witness:
  "tiers_fault calm = None
   \<and> map t_level (allocation_tiers example_db) = [2, 1]
   \<and> map (t_level \<circ> td_row) (tiers (snd (fetchTiers calm example_allocation example_db example_ui))) = [1, 2]
   \<and> sorted (map t_level (map td_row (tiers (snd (fetchTiers calm example_allocation example_db example_ui)))))
   \<and> map td_row (tiers (snd (fetchTiers calm example_allocation example_db
          (snd (fetchTiers calm example_allocation example_db example_ui)))))
       = map td_row (tiers (snd (fetchTiers calm example_allocation example_db example_ui)))"
proof -
  have h: "tiers_fault calm = None"
    by (simp add: calm_def)
  have levels: "map t_level (allocation_tiers example_db) = [2, 1]"
    by (simp add: example_db_def)
  have shown: "map (t_level \<circ> td_row) (tiers (snd (fetchTiers calm example_allocation example_db example_ui))) = [1, 2]"
    by (simp add: fetchTiers_def select_tiers_def calm_def example_db_def example_allocation_def)
  show ?thesis
    using h levels shown
      listed_tiers_sorted_by_level[OF h h, of example_allocation example_db example_ui]
    by blast
qed

section \<open>The aggregator: results\<close>

lemma findIndex_None: "findIndex P xs = None \<longleftrightarrow> (\<forall>x\<in>set xs. \<not> P x)"
  by (induction xs) auto

lemma findIndex_Some:
  "findIndex P xs = Some n \<Longrightarrow> n < length xs \<and> P (xs ! n) \<and> (\<forall>m<n. \<not> P (xs ! m))"
proof (induction xs arbitrary: n)
  case Nil
  then show ?case by simp
next
  case (Cons x xs)
  then show ?case
    by (auto split: if_splits simp: nth_Cons split: nat.splits)
qed

lemma filter_update_other:
  "n < length xs \<Longrightarrow> \<not> Q (xs ! n) \<Longrightarrow> \<not> Q y \<Longrightarrow> filter Q (xs[n := y]) = filter Q xs"
proof (induction xs arbitrary: n)
  case Nil
  then show ?case by simp
next
  case (Cons x xs)
  then show ?case by (cases n) auto
qed

lemma find_update_first:
  "n < length xs \<Longrightarrow> (\<forall>m<n. \<not> P (xs ! m)) \<Longrightarrow> P y \<Longrightarrow> find P (xs[n := y]) = Some y"
proof (induction xs arbitrary: n)
  case Nil
  then show ?case by simp
next
  case (Cons x xs)
  show ?case
  proof (cases n)
    case 0
    then show ?thesis using Cons.prems by simp
  next
    case (Suc k)
    have "\<not> P x"
      using Cons.prems(2) Suc by (metis nth_Cons_0 zero_less_Suc)
    moreover have "\<forall>m<k. \<not> P (xs ! m)"
      using Cons.prems(2) Suc by (metis Suc_less_eq nth_Cons_Suc)
    ultimately show ?thesis
      using Cons.IH[of k] Cons.prems Suc by simp
  qed
qed

lemma find_append_new: "(\<forall>x\<in>set xs. \<not> P x) \<Longrightarrow> P y \<Longrightarrow> find P (xs @ [y]) = Some y"
  by (induction xs) auto

lemma find_filter_not: "find P (filter (\<lambda>e. \<not> P e) xs) = None"
  by (induction xs) auto

lemma selected_entry:
  "find (\<lambda>e. sourceId e = selectedSource s) (selectedSources (handleItemSelect i s))
   = (if toggle i (selectedItems s) = [] then None
      else Some \<lparr>sourceId = selectedSource s, items = selectedSourceItems (toggle i (selectedItems s))\<rparr>)"
proof (cases "toggle i (selectedItems s) = []")
  case True
  then show ?thesis
    using find_filter_not[of "\<lambda>e. sourceId e = selectedSource s" "selectedSources s"]
    by (simp add: handleItemSelect_def Let_def)
next
  case False
  let ?entry = "\<lparr>sourceId = selectedSource s, items = selectedSourceItems (toggle i (selectedItems s))\<rparr>"
  show ?thesis
  proof (cases "findIndex (\<lambda>e. sourceId e = selectedSource s) (selectedSources s)")
    case None
    then have "find (\<lambda>e. sourceId e = selectedSource s) (selectedSources s @ [?entry]) = Some ?entry"
      by (intro find_append_new) (simp_all add: findIndex_None)
    then show ?thesis using False None by (simp add: handleItemSelect_def Let_def)
  next
    case (Some n)
    then have "find (\<lambda>e. sourceId e = selectedSource s) ((selectedSources s)[n := ?entry]) = Some ?entry"
      using findIndex_Some[OF Some] by (intro find_update_first) simp_all
    then show ?thesis using False Some by (simp add: handleItemSelect_def Let_def)
  qed
qed

lemma other_kinds_kept:
  "filter (\<lambda>e. sourceId e \<noteq> selectedSource s) (selectedSources (handleItemSelect i s))
   = filter (\<lambda>e. sourceId e \<noteq> selectedSource s) (selectedSources s)"
  by (auto simp: handleItemSelect_def Let_def filter_update_other dest!: findIndex_Some split: option.splits)

text \<open>Removing a kind from the summary drops its entry and no other.\<close>

lemma removeSource_drops_kind:
  "find (\<lambda>e. sourceId e = k) (selectedSources (removeSource k s)) = None
   \<and> filter (\<lambda>e. sourceId e \<noteq> k) (selectedSources (removeSource k s))
       = filter (\<lambda>e. sourceId e \<noteq> k) (selectedSources s)"
  using find_filter_not[of "\<lambda>e. sourceId e = k" "selectedSources s"]
  by (simp add: removeSource_def)

text \<open>
  Claim C3, as the code has it. Switching the active kind leaves the summary of
  selections as it is (and empties the working list); selecting or deselecting an item
  leaves the entries of all other kinds as they are, in place, so all kinds are listed
  together; and the entry of the active kind is rebuilt from the working list alone: it
  is dropped when the list is empty and is otherwise exactly the known items of the list.
\<close>

theorem switching_keeps_other_kinds:
  "selectedSources (handleSourceChange k s) = selectedSources s
   \<and> selectedItems (handleSourceChange k s) = []
   \<and> filter (\<lambda>e. sourceId e \<noteq> selectedSource s) (selectedSources (handleItemSelect i s))
      = filter (\<lambda>e. sourceId e \<noteq> selectedSource s) (selectedSources s)
   \<and> find (\<lambda>e. sourceId e = selectedSource s) (selectedSources (handleItemSelect i s))
      = (if toggle i (selectedItems s) = [] then None
         else Some \<lparr>sourceId = selectedSource s,
                    items = selectedSourceItems (toggle i (selectedItems s))\<rparr>)"
  using selected_entry[of s i] other_kinds_kept[of s i]
  by (simp add: handleSourceChange_def)

text \<open>
  Claim C3 as stated fails on the way back to a kind: with \<open>q1\<close> selected under queries
  and \<open>t1\<close> under tags, returning to queries and selecting \<open>q2\<close> leaves the queries with
  \<open>q2\<close> alone; \<open>q1\<close> is replaced, not added to.
\<close>

theorem returning_to_kind_replaces_selection:
  "items_of Query (selectedSources (handleItemSelect ''t1'' (handleSourceChange Tag
      (handleItemSelect ''q1'' initial_selection)))) = [''q1'']
   \<and> items_of Query (selectedSources (handleItemSelect ''q2'' (handleSourceChange Query
      (handleItemSelect ''t1'' (handleSourceChange Tag
        (handleItemSelect ''q1'' initial_selection)))))) = [''q2'']"
  by (simp add: handleItemSelect_def handleSourceChange_def initial_selection_def toggle_def
      selectedSourceItems_def MOCK_ITEM_DATA_def items_of_def Let_def)

section \<open>Creating a tier: the assignment rows\<close>

lemma assignment_triples:
  "map (\<lambda>r. (c_source_type r, c_source_id r, c_customer_id r)) (customerAssignments aid tid now srcs)
     = concat (map (\<lambda>s. map (\<lambda>i. (sourceId s, item_id i, item_id i)) (items s)) srcs)"
  by (induction srcs) (simp_all add: customerAssignments_def comp_def)

lemma assignment_count:
  "length (customerAssignments aid tid now srcs) = sum_list (map (\<lambda>s. length (items s)) srcs)"
  by (induction srcs) (simp_all add: customerAssignments_def)

lemma submit_accepted:
  assumes "level (formData ui) = Some lv" "lv \<noteq> 0" "name (formData ui) \<noteq> []"
    "accessStart (formData ui) \<noteq> []" "accessEnd (formData ui) \<noteq> []"
    "toISOString env (accessStart (formData ui)) = Some s"
    "toISOString env (accessEnd (formData ui)) = Some e"
    "tier_fault env = None" "bundle_fault env = None" "assignments_fault env = None"
  shows "fst (AllocationTiers_handleSubmit env a d ui) = None \<and>
     customer_tiers (fst (snd (AllocationTiers_handleSubmit env a d ui))) =
       customer_tiers d @
       customerAssignments (alloc_id a) (new_tier_id env) (now_iso env) (selectedSources ui)"
  using assms
  by (simp add: AllocationTiers_handleSubmit_def Let_def insert_tier_def insert_tier_overrides_def
      insert_customer_tiers_def customerAssignments_def)

text \<open>
  Claim C4, as the code has it. A tier creation that passes validation and whose three
  inserts the store carries out adds to \<open>customer_tiers\<close> exactly one row per selected
  item, in the order of the summary; each row carries the kind as \<open>source_type\<close> and the
  item's id both as \<open>source_id\<close> and as \<open>customer_id\<close>. No selection is expanded into
  the customers it denotes.
\<close>

theorem tier_creation_one_row_per_item:
  assumes "level (formData ui) = Some lv" "lv \<noteq> 0" "name (formData ui) \<noteq> []"
    "accessStart (formData ui) \<noteq> []" "accessEnd (formData ui) \<noteq> []"
    "toISOString env (accessStart (formData ui)) = Some s"
    "toISOString env (accessEnd (formData ui)) = Some e"
    "tier_fault env = None" "bundle_fault env = None" "assignments_fault env = None"
  shows "fst (AllocationTiers_handleSubmit env a d ui) = None
    \<and> customer_tiers (fst (snd (AllocationTiers_handleSubmit env a d ui))) =
        customer_tiers d @
        customerAssignments (alloc_id a) (new_tier_id env) (now_iso env) (selectedSources ui)
    \<and> map (\<lambda>r. (c_source_type r, c_source_id r, c_customer_id r))
          (customerAssignments (alloc_id a) (new_tier_id env) (now_iso env) (selectedSources ui))
        = concat (map (\<lambda>s. map (\<lambda>i. (sourceId s, item_id i, item_id i)) (items s))
            (selectedSources ui))
    \<and> length (customerAssignments (alloc_id a) (new_tier_id env) (now_iso env) (selectedSources ui))
        = sum_list (map (\<lambda>s. length (items s)) (selectedSources ui))"
  using submit_accepted[OF assms, of a d] assignment_triples assignment_count
  by simp

theorem tier_creation_one_row_per_item_witness:
  "fst (AllocationTiers_handleSubmit example_env example_allocation example_db example_ui) = None
   \<and> customer_tiers (fst (snd (AllocationTiers_handleSubmit example_env example_allocation
        example_db example_ui))) =
       customer_tiers example_db @
       customerAssignments (alloc_id example_allocation) (new_tier_id example_env)
         (now_iso example_env) (selectedSources example_ui)
   \<and> length (customerAssignments (alloc_id example_allocation) (new_tier_id example_env)
        (now_iso example_env) (selectedSources example_ui)) = 1"
proof -
  have h: "level (formData example_ui) = Some 3" "(3::int) \<noteq> 0" "name (formData example_ui) \<noteq> []"
    "accessStart (formData example_ui) \<noteq> []" "accessEnd (formData example_ui) \<noteq> []"
    "toISOString example_env (accessStart (formData example_ui)) = Some ''2024-01-06T00:00:00.000Z''"
    "toISOString example_env (accessEnd (formData example_ui)) = Some ''2024-01-08T00:00:00.000Z''"
    "tier_fault example_env = None" "bundle_fault example_env = None"
    "assignments_fault example_env = None"
    by (simp_all add: example_ui_def example_env_def)
  have n: "sum_list (map (\<lambda>s. length (items s)) (selectedSources example_ui)) = 1"
    by (simp add: example_ui_def)
  show ?thesis
    using tier_creation_one_row_per_item[OF h, of example_allocation example_db] n
    by simp
qed

text \<open>
  Claim C4 as stated fails for every kind but the search: creating a tier with the group
  \<open>g1\<close> selected, which stands for 500 customers (the count stored with the tier),
  inserts one assignment row, and its \<open>customer_id\<close> is the group's id \<open>g1\<close>.
\<close>

theorem group_selection_gives_one_row:
  "map (\<lambda>r. (c_source_type r, c_source_id r, c_customer_id r))
       (customer_tiers (fst (snd (AllocationTiers_handleSubmit example_env example_allocation
          empty_db example_ui))))
     = [(Group, ''g1'', ''g1'')]
   \<and> map t_customer_count
       (allocation_tiers (fst (snd (AllocationTiers_handleSubmit example_env example_allocation
          empty_db example_ui))))
     = [500]"
  by (simp add: AllocationTiers_handleSubmit_def Let_def example_env_def example_ui_def empty_db_def
      example_allocation_def insert_tier_def insert_customer_tiers_def customerAssignments_def
      has_keys_def totalCustomers_def count_or_1_def g1_item_def)

section \<open>The product override editor: results\<close>

text \<open>The operator \<open>??\<close>: the value if there is one, the base otherwise.\<close>

lemma nullish_cases: "nullish (Some v) base = v \<and> nullish None base = base"
  by (simp add: nullish_def)






text \<open>The mapping the editor shows for an existing tier is \<open>listOverrides\<close> of that tier.\<close>

lemma fetchProducts_lists_overrides:
  assumes "select_allocation_products pf (alloc_id a) d = Inr ps"
    and "given_tier tierId = Some tid"
    and "listOverrides f tid d = Inr m"
  shows "fetchProducts pf f a tierId d ed =
    (None, ed\<lparr>ed_products := ps, ed_overrides := m, ed_loading := False\<rparr>)"
  using assms
  by (auto simp: fetchProducts_def listOverrides_def split: sum.splits)

lemma map_of_update_same: "map_of (AList.update k v al) k = Some v"
  by (simp add: update_conv')

text \<open>
  Claim C10, as the code has it. For a product without an override record, the first
  change of any field other than \<open>allowWishRequests\<close> itself creates the record from
  \<open>{productId, allowWishRequests: false}\<close>: the record says \<open>false\<close>, and from then on
  the effective value is \<open>false\<close> whatever the product's default is. A first change of
  \<open>allowWishRequests\<close> itself creates the record with the chosen value.
\<close>

theorem first_change_switches_wish_requests_off:
  assumes "map_of prev pid = None" and "\<not> sets_allowWishRequests fv" and "ap_id product = pid"
  shows "map_of (handleOverrideChange pid fv prev) pid = Some (set_field fv (fresh_override pid))
    \<and> allowWishRequests (set_field fv (fresh_override pid)) = False
    \<and> effective_allowWishRequests (handleOverrideChange pid fv prev) product = False
    \<and> map_of (handleOverrideChange pid (SetAllowWishRequests b) prev) pid
        = Some ((fresh_override pid)\<lparr>allowWishRequests := b\<rparr>)
    \<and> effective_allowWishRequests (handleOverrideChange pid (SetAllowWishRequests b) prev) product
        = b"
proof -
  have rec: "map_of (handleOverrideChange pid fv prev) pid = Some (set_field fv (fresh_override pid))"
    using assms(1) by (simp add: handleOverrideChange_def map_of_update_same)
  have off: "allowWishRequests (set_field fv (fresh_override pid)) = False"
    using assms(2) by (cases fv) (simp_all add: fresh_override_def)
  have box: "map_of (handleOverrideChange pid (SetAllowWishRequests b) prev) pid
        = Some ((fresh_override pid)\<lparr>allowWishRequests := b\<rparr>)"
    using assms(1) by (simp add: handleOverrideChange_def map_of_update_same)
  show ?thesis
    using rec off box assms(3)
    by (simp add: effective_allowWishRequests_def opt_chain_def nullish_def)
qed

theorem first_change_switches_wish_requests_off_witness:
  "map_of ([] :: override_map) ''p1'' = None
   \<and> \<not> sets_allowWishRequests (SetMinPurchase (Some 2))
   \<and> ap_allow_wish_requests \<lparr>ap_id = ''p1'', ap_allocation_id = ''a1'', ap_product_id = ''sku1'',
        ap_allow_wish_requests = True\<rparr>
   \<and> effective_allowWishRequests []
        \<lparr>ap_id = ''p1'', ap_allocation_id = ''a1'', ap_product_id = ''sku1'',
         ap_allow_wish_requests = True\<rparr> = True
   \<and> effective_allowWishRequests (handleOverrideChange ''p1'' (SetMinPurchase (Some 2)) [])
        \<lparr>ap_id = ''p1'', ap_allocation_id = ''a1'', ap_product_id = ''sku1'',
         ap_allow_wish_requests = True\<rparr> = False"
proof -
  let ?p = "\<lparr>ap_id = ''p1'', ap_allocation_id = ''a1'', ap_product_id = ''sku1'',
        ap_allow_wish_requests = True\<rparr>"
  have h1: "map_of ([] :: override_map) ''p1'' = None" by simp
  have h2: "\<not> sets_allowWishRequests (SetMinPurchase (Some 2))" by simp
  have h3: "ap_id ?p = ''p1''" by simp
  have before: "effective_allowWishRequests [] ?p = True"
    by (simp add: effective_allowWishRequests_def opt_chain_def nullish_def)
  show ?thesis
    using first_change_switches_wish_requests_off[OF h1 h2 h3] before h2 by simp
qed

text \<open>
  Claim C10 as stated fails for the field \<open>allowWishRequests\<close> itself: ticking the
  checkbox of a product without a record creates the record with \<open>true\<close>.
\<close>

theorem first_change_of_checkbox_keeps_value:
  "map_of ([] :: override_map) ''p1'' = None
   \<and> map_of (handleOverrideChange ''p1'' (SetAllowWishRequests True) []) ''p1''
       = Some ((fresh_override ''p1'')\<lparr>allowWishRequests := True\<rparr>)
   \<and> allowWishRequests ((fresh_override ''p1'')\<lparr>allowWishRequests := True\<rparr>) = True"
  by (simp add: handleOverrideChange_def)

section \<open>Saving the product overrides of a tier: results\<close>

lemma filter_neq_eq_Nil: "filter (\<lambda>r. f r = tid) (filter (\<lambda>r. f r \<noteq> tid) xs) = []"
  by (induction xs) auto

lemma filter_eq_map_to_row:
  "filter (\<lambda>r. p_tier_id r = tid) (map (to_row tid) ovs) = map (to_row tid) ovs"
  by (induction ovs) (auto simp: to_row_def)

lemma filter_other_map_to_row:
  "t \<noteq> tid \<Longrightarrow> filter (\<lambda>r. p_tier_id r = t) (map (to_row tid) ovs) = []"
  by (induction ovs) (auto simp: to_row_def)

lemma filter_other_filter:
  "t \<noteq> tid \<Longrightarrow> filter (\<lambda>r. f r = t) (filter (\<lambda>r. f r \<noteq> tid) xs) = filter (\<lambda>r. f r = t) xs"
  by (induction xs) auto

lemma save_db:
  assumes "tid \<noteq> []" "delete_fault env = None" "insert_fault env = None"
  shows "tier_product_overrides (snd (TierProductOverrides_handleSubmit env False (Some tid) ovs d))
     = filter (\<lambda>r. p_tier_id r \<noteq> tid) (tier_product_overrides d) @ map (to_row tid) (map snd ovs)"
  using assms
  by (auto simp: TierProductOverrides_handleSubmit_def given_tier_def Let_def
      delete_product_overrides_def insert_product_overrides_def upsert_has_product_overrides_def
      split: option.splits)

lemma rows_after_save:
  assumes "tid \<noteq> []" "delete_fault env = None" "insert_fault env = None"
  shows "filter (\<lambda>r. p_tier_id r = t)
           (tier_product_overrides (snd (TierProductOverrides_handleSubmit env False (Some tid) ovs d)))
     = (if t = tid then map (to_row tid) (map snd ovs)
        else filter (\<lambda>r. p_tier_id r = t) (tier_product_overrides d))"
proof (cases "t = tid")
  case True
  then show ?thesis
    unfolding save_db[OF assms] filter_append
    using filter_neq_eq_Nil[of p_tier_id tid] filter_eq_map_to_row[of tid "map snd ovs"]
    by simp
next
  case False
  then show ?thesis
    unfolding save_db[OF assms] filter_append
    using filter_other_filter[of t tid p_tier_id] filter_other_map_to_row[of t tid "map snd ovs"]
    by simp
qed

lemma of_to_row: "of_row (to_row tid ov) = ov"
  by (simp add: of_row_def to_row_def)

lemma update_new_key: "k \<notin> fst ` set acc \<Longrightarrow> AList.update k v acc = acc @ [(k, v)]"
  by (induction acc) auto

lemma fold_update_append:
  "distinct (map fst ovs) \<Longrightarrow> list_all (\<lambda>(k, ov). productId ov = k) ovs \<Longrightarrow>
   set (map fst ovs) \<inter> set (map fst acc) = {} \<Longrightarrow>
   fold (\<lambda>r m. AList.update (p_product_id r) (of_row r) m) (map (to_row tid) (map snd ovs)) acc
     = acc @ ovs"
proof (induction ovs arbitrary: acc)
  case Nil
  then show ?case by simp
next
  case (Cons x ovs)
  obtain k ov where x: "x = (k, ov)"
    by (cases x)
  have pk: "productId ov = k"
    using Cons.prems(2) x by simp
  have "k \<notin> fst ` set acc"
    using Cons.prems(3) x by auto
  then have upd: "AList.update k ov acc = acc @ [(k, ov)]"
    by (rule update_new_key)
  have row: "p_product_id (to_row tid ov) = k"
    using pk by (simp add: to_row_def)
  have "fold (\<lambda>r m. AList.update (p_product_id r) (of_row r) m) (map (to_row tid) (map snd ovs))
          (acc @ [(k, ov)]) = (acc @ [(k, ov)]) @ ovs"
    using Cons.prems x by (intro Cons.IH) auto
  then show ?case
    using x upd row by (simp add: of_to_row)
qed

text \<open>
  The errors of the delete and of the upsert are not read. When the store refuses both
  and accepts the insert, the save still ends with \<open>onClose\<close>, the earlier rows of
  the tier stay next to the new ones, and the bundle rows are as they were.
\<close>

lemma save_with_refused_delete:
  assumes "tid \<noteq> []" "delete_fault env = Some e1" "insert_fault env = None"
    "upsert_fault env = Some e2"
  shows "TierProductOverrides_handleSubmit env False (Some tid) ovs d =
    (CalledOnClose,
     d\<lparr>tier_product_overrides := tier_product_overrides d @ map (to_row tid) (map snd ovs)\<rparr>)"
  using assms
  by (simp add: TierProductOverrides_handleSubmit_def given_tier_def Let_def
      delete_product_overrides_def insert_product_overrides_def upsert_has_product_overrides_def)

text \<open>What the editor reads back from the rows it wrote is what it had.\<close>

lemma overridesMap_to_row:
  "well_keyed ovs \<Longrightarrow> overridesMap (map (to_row tid) (map snd ovs)) = ovs"
  using fold_update_append[of ovs "[]" tid]
  by (simp add: overridesMap_def well_keyed_def)

text \<open>
  Claim C6. In edit mode, when the store carries out the delete and the insert, the
  stored overrides of the tier are afterwards exactly the submitted ones (one row per
  entry, nothing of the earlier set), and the rows of every other tier are untouched;
  read back, they give the submitted mapping. Saving the empty set leaves the tier with
  no overrides whatever was stored before, so saving a set, then the empty set, then
  listing yields the empty mapping. (A tier id that is the empty string counts as no
  tier id.)
\<close>

theorem save_replaces_override_set:
  assumes "tid \<noteq> []" "delete_fault env = None" "insert_fault env = None"
  shows "(let d' = snd (TierProductOverrides_handleSubmit env False (Some tid) ovs d) in
      select_product_overrides None tid d' = Inr (map (to_row tid) (map snd ovs))
    \<and> (\<forall>t. t \<noteq> tid \<longrightarrow> select_product_overrides None t d' = select_product_overrides None t d)
    \<and> (well_keyed ovs \<longrightarrow> listOverrides None tid d' = Inr ovs))
    \<and> listOverrides None tid (snd (TierProductOverrides_handleSubmit env False (Some tid) [] d))
        = Inr []"
proof -
  let ?d' = "snd (TierProductOverrides_handleSubmit env False (Some tid) ovs d)"
  have own: "select_product_overrides None tid ?d' = Inr (map (to_row tid) (map snd ovs))"
    unfolding select_product_overrides_def using rows_after_save[OF assms, of tid ovs d]
    by simp
  have others: "\<forall>t. t \<noteq> tid \<longrightarrow> select_product_overrides None t ?d' = select_product_overrides None t d"
    unfolding select_product_overrides_def using rows_after_save[OF assms, of _ ovs d]
    by simp
  have listed: "listOverrides None tid ?d' = Inr (overridesMap (map (to_row tid) (map snd ovs)))"
    by (simp only: listOverrides_def own sum.case)
  have reread: "well_keyed ovs \<longrightarrow> listOverrides None tid ?d' = Inr ovs"
    using listed overridesMap_to_row[of ovs tid] by (simp only:) simp
  have "select_product_overrides None tid
          (snd (TierProductOverrides_handleSubmit env False (Some tid) [] d)) = Inr []"
    unfolding select_product_overrides_def using rows_after_save[OF assms, of tid "[]" d]
    by simp
  then have cleared: "listOverrides None tid
          (snd (TierProductOverrides_handleSubmit env False (Some tid) [] d)) = Inr []"
    by (simp add: listOverrides_def overridesMap_def)
  show ?thesis
    unfolding Let_def using own others reread cleared by blast
qed

theorem save_replaces_override_set_witness:
  "listOverrides None ''tier1'' example_db \<noteq> Inr []
   \<and> well_keyed example_overrides
   \<and> listOverrides None ''tier1''
        (snd (TierProductOverrides_handleSubmit all_ok False (Some ''tier1'') example_overrides
           example_db))
      = Inr example_overrides
   \<and> listOverrides None ''tier1''
        (snd (TierProductOverrides_handleSubmit all_ok False (Some ''tier1'') []
           (snd (TierProductOverrides_handleSubmit all_ok False (Some ''tier1'') example_overrides
              example_db))))
      = Inr []"
proof -
  have h: "''tier1'' \<noteq> []" "delete_fault all_ok = None" "insert_fault all_ok = None"
    by (simp_all add: all_ok_def)
  have before: "listOverrides None ''tier1'' example_db \<noteq> Inr []"
    by (simp add: listOverrides_def select_product_overrides_def example_db_def overridesMap_def)
  have keyed: "well_keyed example_overrides"
    by (simp add: well_keyed_def example_overrides_def fresh_override_def)
  show ?thesis
    using before keyed
      save_replaces_override_set[OF h, of example_overrides example_db]
      save_replaces_override_set[OF h, of "[]"
        "snd (TierProductOverrides_handleSubmit all_ok False (Some ''tier1'') example_overrides example_db)"]
    by (simp add: Let_def)
qed

section \<open>The flag \<open>has_product_overrides\<close>: results\<close>

lemma set_flag_tier [simp]: "o_tier_id (set_flag tid r) = o_tier_id r"
  by (simp add: set_flag_def)

lemma set_flag_flag: "o_tier_id r = tid \<Longrightarrow> o_has_product_overrides (set_flag tid r)"
  by (simp add: set_flag_def)

lemma set_flag_id: "o_has_product_overrides r \<Longrightarrow> set_flag tid r = r"
  by (simp add: set_flag_def)

lemma upsert_rows:
  "tier_overrides (snd (upsert_has_product_overrides None tid d)) =
     (if \<exists>r \<in> set (tier_overrides d). o_tier_id r = tid
      then map (set_flag tid) (tier_overrides d)
      else tier_overrides d @ [\<lparr>o_tier_id = tid, o_requirements = None, o_discounts = None,
                      o_shipping = None, o_has_product_overrides = True\<rparr>])"
  by (simp add: upsert_has_product_overrides_def set_flag_def[abs_def])

lemma upsert_sets_flag:
  "(\<exists>r \<in> set (tier_overrides (snd (upsert_has_product_overrides None tid d))). o_tier_id r = tid)
   \<and> (\<forall>r \<in> set (tier_overrides (snd (upsert_has_product_overrides None tid d))). o_tier_id r = tid \<longrightarrow> o_has_product_overrides r)"
proof (cases "\<exists>r \<in> set (tier_overrides d). o_tier_id r = tid")
  case True
  then obtain r0 where r0: "r0 \<in> set (tier_overrides d)" "o_tier_id r0 = tid" by blast
  have rows: "tier_overrides (snd (upsert_has_product_overrides None tid d)) = map (set_flag tid) (tier_overrides d)"
    using True upsert_rows[of tid d] by simp
  have "set_flag tid r0 \<in> set (map (set_flag tid) (tier_overrides d))" using r0(1) by simp
  moreover have "o_tier_id (set_flag tid r0) = tid" using r0(2) by simp
  ultimately have ex: "\<exists>r \<in> set (map (set_flag tid) (tier_overrides d)). o_tier_id r = tid" by blast
  have "o_has_product_overrides r"
    if mem: "r \<in> set (map (set_flag tid) (tier_overrides d))" and own: "o_tier_id r = tid" for r
  proof -
    obtain r' where "r = set_flag tid r'" using mem by auto
    then show ?thesis using own set_flag_flag[of r' tid] by simp
  qed
  then show ?thesis unfolding rows using ex by blast
next
  case False
  have rows: "tier_overrides (snd (upsert_has_product_overrides None tid d)) =
     tier_overrides d @ [\<lparr>o_tier_id = tid, o_requirements = None, o_discounts = None,
                      o_shipping = None, o_has_product_overrides = True\<rparr>]"
    using False upsert_rows[of tid d] by simp
  show ?thesis unfolding rows using False by auto
qed

lemma upsert_keeps: "flags_kept d (snd (upsert_has_product_overrides fault tid d))"
proof -
  have "r \<in> set (tier_overrides (snd (upsert_has_product_overrides fault tid d)))"
    if "r \<in> set (tier_overrides d)" "o_has_product_overrides r" for r
  proof (cases fault)
    case (Some e) then show ?thesis using that by (simp add: upsert_has_product_overrides_def)
  next
    case None
    have "set_flag tid r \<in> set (map (set_flag tid) (tier_overrides d))" using that(1) by simp
    then have "r \<in> set (map (set_flag tid) (tier_overrides d))" using set_flag_id[OF that(2)] by simp
    then show ?thesis unfolding None upsert_rows using that(1) by simp
  qed
  then show ?thesis by (simp add: flags_kept_def)
qed

lemma upsert_cong:
  "tier_overrides d1 = tier_overrides d2 \<Longrightarrow>
   tier_overrides (snd (upsert_has_product_overrides f tid d1)) = tier_overrides (snd (upsert_has_product_overrides f tid d2))"
  by (cases f) (simp_all add: upsert_has_product_overrides_def)

lemma delete_po_overrides: "tier_overrides (snd (delete_product_overrides f tid d)) = tier_overrides d"
  by (cases f) (simp_all add: delete_product_overrides_def)

lemma insert_po_overrides: "tier_overrides (snd (insert_product_overrides f rows d)) = tier_overrides d"
  by (cases f) (simp_all add: insert_product_overrides_def)

lemma save_edit:
  assumes "tid \<noteq> []" "insert_fault env = None"
  shows "tier_overrides (snd (TierProductOverrides_handleSubmit env False (Some tid) ovs d))
       = tier_overrides (snd (upsert_has_product_overrides (upsert_fault env) tid d))"
proof -
  define d1 where "d1 = snd (delete_product_overrides (delete_fault env) tid d)"
  define d2 where "d2 = snd (insert_product_overrides None (map (to_row tid) (map snd ovs)) d1)"
  have ins: "insert_product_overrides None (map (to_row tid) (map snd ovs)) d1 = (None, d2)"
    by (simp add: d2_def insert_product_overrides_def)
  have "TierProductOverrides_handleSubmit env False (Some tid) ovs d
      = (CalledOnClose, snd (upsert_has_product_overrides (upsert_fault env) tid d2))"
    using assms ins by (simp add: TierProductOverrides_handleSubmit_def given_tier_def Let_def d1_def)
  moreover have "tier_overrides d2 = tier_overrides d"
    by (simp add: d2_def d1_def insert_po_overrides delete_po_overrides)
  ultimately show ?thesis using upsert_cong[of d2 d] by simp
qed

lemma save_other:
  assumes "m \<or> given_tier tierId = None \<or> insert_fault env \<noteq> None"
  shows "tier_overrides (snd (TierProductOverrides_handleSubmit env m tierId ovs d)) = tier_overrides d"
proof (cases "m \<or> given_tier tierId = None")
  case True
  then show ?thesis by (auto simp: TierProductOverrides_handleSubmit_def)
next
  case False
  then obtain tid e where t: "given_tier tierId = Some tid" "\<not> m" "insert_fault env = Some e"
    using assms by auto
  define d1 where "d1 = snd (delete_product_overrides (delete_fault env) tid d)"
  have "TierProductOverrides_handleSubmit env m tierId ovs d = (Caught e, d1)"
    using t by (simp add: TierProductOverrides_handleSubmit_def Let_def d1_def insert_product_overrides_def)
  then show ?thesis by (simp add: d1_def delete_po_overrides)
qed

lemma given_tier_Some: "given_tier tierId = Some tid \<Longrightarrow> tierId = Some tid \<and> tid \<noteq> []"
  by (auto simp: given_tier_def split: option.splits if_splits)

lemma save_keeps: "flags_kept d (snd (TierProductOverrides_handleSubmit env m tierId ovs d))"
proof (cases "m \<or> given_tier tierId = None \<or> insert_fault env \<noteq> None")
  case True
  then show ?thesis using save_other[of m tierId env ovs d] by (simp add: flags_kept_def)
next
  case False
  then obtain tid where t: "given_tier tierId = Some tid" "\<not> m" "insert_fault env = None" by auto
  then have "tierId = Some tid" "tid \<noteq> []" using given_tier_Some by auto
  then show ?thesis using save_edit[of tid env ovs d] t upsert_keeps[of d "upsert_fault env" tid]
    by (simp add: flags_kept_def)
qed

lemma create_overrides_prefix:
  "\<exists>rows. tier_overrides (fst (snd (AllocationTiers_handleSubmit env a d ui))) = tier_overrides d @ rows"
  by (cases "tier_fault env"; cases "bundle_fault env"; cases "assignments_fault env")
     (simp_all add: AllocationTiers_handleSubmit_def Let_def insert_tier_def insert_tier_overrides_def
      insert_customer_tiers_def split: option.split)

lemma create_keeps: "flags_kept d (fst (snd (AllocationTiers_handleSubmit env a d ui)))"
proof -
  obtain rows where "tier_overrides (fst (snd (AllocationTiers_handleSubmit env a d ui)))
      = tier_overrides d @ rows"
    using create_overrides_prefix by blast
  then show ?thesis
    by (simp add: flags_kept_def)
qed

text \<open>
  Claim C7. After a save in edit mode whose insert and upsert the store carries out, and
  be the saved set empty, the tier has a bundle row and every bundle row of the tier has
  \<open>has_product_overrides\<close> set. No save (in either mode, whatever the store answers)
  and no tier creation takes a set flag away: every bundle row with the flag set is
  still there, unchanged.
\<close>

theorem save_sets_flag_and_nothing_clears_it:
  assumes "tid \<noteq> []" "insert_fault env = None" "upsert_fault env = None"
  shows "(\<exists>r \<in> set (tier_overrides (snd (TierProductOverrides_handleSubmit env False (Some tid) ovs d))).
            o_tier_id r = tid)
       \<and> (\<forall>r \<in> set (tier_overrides (snd (TierProductOverrides_handleSubmit env False (Some tid) ovs d))).
            o_tier_id r = tid \<longrightarrow> o_has_product_overrides r)
       \<and> flags_kept d0 (snd (TierProductOverrides_handleSubmit env' m tierId ovs' d0))
       \<and> flags_kept d0 (fst (snd (AllocationTiers_handleSubmit cenv a d0 ui)))"
  using save_edit[OF assms(1,2), of ovs d] assms(3) upsert_sets_flag[of tid d]
    save_keeps[of d0 env' m tierId ovs'] create_keeps[of d0 cenv a ui]
  by simp

theorem save_sets_flag_and_nothing_clears_it_witness:
  "map o_has_product_overrides (tier_overrides example_db) = [False]
   \<and> map o_has_product_overrides
        (tier_overrides (snd (TierProductOverrides_handleSubmit all_ok False (Some ''tier1'') []
           example_db))) = [True]
   \<and> (\<exists>r \<in> set (tier_overrides (snd (TierProductOverrides_handleSubmit all_ok False (Some ''tier1'') []
           example_db))). o_tier_id r = ''tier1'')
   \<and> flags_kept
        (snd (TierProductOverrides_handleSubmit all_ok False (Some ''tier1'') [] example_db))
        (snd (TierProductOverrides_handleSubmit all_ok False (Some ''tier1'') []
           (snd (TierProductOverrides_handleSubmit all_ok False (Some ''tier1'') [] example_db))))"
proof -
  have h: "''tier1'' \<noteq> []" "insert_fault all_ok = None" "upsert_fault all_ok = None"
    by (simp_all add: all_ok_def)
  have before: "map o_has_product_overrides (tier_overrides example_db) = [False]"
    by (simp add: example_db_def)
  have after: "map o_has_product_overrides
        (tier_overrides (snd (TierProductOverrides_handleSubmit all_ok False (Some ''tier1'') []
           example_db))) = [True]"
    by (simp add: TierProductOverrides_handleSubmit_def given_tier_def Let_def all_ok_def
        delete_product_overrides_def insert_product_overrides_def upsert_has_product_overrides_def
        example_db_def)
  show ?thesis
    using before after
      save_sets_flag_and_nothing_clears_it[OF h, of "[]" example_db
        "snd (TierProductOverrides_handleSubmit all_ok False (Some ''tier1'') [] example_db)"
        all_ok False "Some ''tier1''" "[]"]
    by blast
qed

end
